theory Spec2Isabelle
  imports Main
begin

section \<open>Exceptions\<close>

text \<open>
  Every failure of \<^verbatim>\<open>hgssh4.py\<close> is a Python exception that travels up to the
  \<^verbatim>\<open>except BaseException\<close> handler of the script.  \<open>ValueError msg\<close> is the
  exception the script itself raises (and the one \<^verbatim>\<open>shlex\<close> raises);
  \<open>IndexError\<close> is a list index out of range; \<open>OtherException msg\<close> stands for any
  other exception a library call may raise, with the text \<^verbatim>\<open>str(e)\<close> of it.
\<close>

datatype exn = ValueError string | IndexError | OtherException string

section \<open>\<^verbatim>\<open>shlex.split\<close>\<close>

text \<open>
  \<^verbatim>\<open>shlex.split(s)\<close> builds \<^verbatim>\<open>shlex(s, posix=True)\<close>, sets
  \<^verbatim>\<open>whitespace_split = True\<close> and \<^verbatim>\<open>commenters = ''\<close>, and collects the
  tokens.  \<^verbatim>\<open>punctuation_chars\<close> is empty.  The lexer's \<^verbatim>\<open>state\<close> is
  \<^verbatim>\<open>None\<close> (past the end), \<^verbatim>\<open>' '\<close>, \<^verbatim>\<open>'a'\<close>, an opening quote or the
  escape character.
\<close>

datatype lex_state = St_None | St_space | St_a | St_quote char | St_escape char

definition whitespace :: string where
  "whitespace = [CHR '' '', CHR 0x09, CHR 0x0D, CHR 0x0A]"

definition quotes :: string where
  "quotes = [CHR 0x27, CHR 0x22]"

definition escape :: string where
  "escape = [CHR 0x5C]"

definition escapedquotes :: string where
  "escapedquotes = [CHR 0x22]"

text \<open>
  The \<^verbatim>\<open>while True\<close> loop of \<^verbatim>\<open>read_token\<close>.  Each round reads one character
  (\<open>[]\<close> is the end of the input, where \<^verbatim>\<open>read(1)\<close> gives \<^verbatim>\<open>''\<close>) and
  dispatches on the state; the result at a \<^verbatim>\<open>break\<close> is the state, the token, the
  flag \<^verbatim>\<open>quoted\<close> and the input left.  In the states \<^verbatim>\<open>' '\<close> and \<^verbatim>\<open>'a'\<close> a
  character that is no whitespace, escape or quote goes into the token: with
  \<^verbatim>\<open>whitespace_split\<close> set the branch for \<^verbatim>\<open>wordchars\<close> and the branch for
  every other character do the same, and no quote is among \<^verbatim>\<open>wordchars\<close>.
\<close>

fun read_loop ::
  "lex_state \<Rightarrow> string \<Rightarrow> bool \<Rightarrow> lex_state \<Rightarrow> string \<Rightarrow>
     exn + (lex_state \<times> string \<times> bool \<times> string)" where
  "read_loop St_None token quoted escapedstate instream =
     Inr (St_None, [], quoted, drop 1 instream)"
| "read_loop St_space token quoted escapedstate [] =
     Inr (St_None, token, quoted, [])"
| "read_loop St_space token quoted escapedstate (nextchar # instream) =
     (if nextchar \<in> set whitespace then
        (if token \<noteq> [] \<or> quoted then Inr (St_space, token, quoted, instream)
         else read_loop St_space token quoted escapedstate instream)
      else if nextchar \<in> set escape then
        read_loop (St_escape nextchar) token quoted St_a instream
      else if nextchar \<in> set quotes then
        read_loop (St_quote nextchar) token quoted escapedstate instream
      else read_loop St_a [nextchar] quoted escapedstate instream)"
| "read_loop (St_quote q) token quoted escapedstate [] =
     Inl (ValueError ''No closing quotation'')"
| "read_loop (St_quote q) token quoted escapedstate (nextchar # instream) =
     (if nextchar = q then read_loop St_a token True escapedstate instream
      else if nextchar \<in> set escape \<and> q \<in> set escapedquotes then
        read_loop (St_escape nextchar) token True (St_quote q) instream
      else read_loop (St_quote q) (token @ [nextchar]) True escapedstate instream)"
| "read_loop (St_escape e) token quoted escapedstate [] =
     Inl (ValueError ''No escaped character'')"
| "read_loop (St_escape e) token quoted escapedstate (nextchar # instream) =
     (let token' =
        (case escapedstate of
           St_quote q \<Rightarrow> if nextchar \<noteq> e \<and> nextchar \<noteq> q then token @ [e] else token
         | _ \<Rightarrow> token)
      in read_loop escapedstate (token' @ [nextchar]) quoted escapedstate instream)"
| "read_loop St_a token quoted escapedstate [] =
     Inr (St_None, token, quoted, [])"
| "read_loop St_a token quoted escapedstate (nextchar # instream) =
     (if nextchar \<in> set whitespace then
        (if token \<noteq> [] \<or> quoted then Inr (St_space, token, quoted, instream)
         else read_loop St_space token quoted escapedstate instream)
      else if nextchar \<in> set quotes then
        read_loop (St_quote nextchar) token quoted escapedstate instream
      else if nextchar \<in> set escape then
        read_loop (St_escape nextchar) token quoted St_a instream
      else read_loop St_a (token @ [nextchar]) quoted escapedstate instream)"

text \<open>
  \<^verbatim>\<open>read_token\<close>: the loop starts with an empty token, \<^verbatim>\<open>quoted = False\<close> and
  \<^verbatim>\<open>escapedstate = ' '\<close>; an empty token that was not quoted is \<^verbatim>\<open>None\<close>,
  the end-of-file token of a POSIX lexer.
\<close>

definition read_token ::
  "lex_state \<Rightarrow> string \<Rightarrow> exn + (string option \<times> lex_state \<times> string)" where
  "read_token state instream =
     (case read_loop state [] False St_space instream of
        Inl e \<Rightarrow> Inl e
      | Inr (state', token, quoted, instream') \<Rightarrow>
          Inr (if \<not> quoted \<and> token = [] then None else Some token, state', instream'))"

lemma read_loop_le:
  "read_loop state token quoted escapedstate instream = Inr (state', token', quoted', rest) \<Longrightarrow>
     length rest \<le> length instream"
proof (induction state token quoted escapedstate instream rule: read_loop.induct)
  case (1 token quoted escapedstate instream)
  then show ?case by auto
next
  case (2 token quoted escapedstate)
  then show ?case by auto
next
  case (3 token quoted escapedstate nextchar instream)
  then show ?case by (auto split: if_splits intro: le_SucI)
next
  case (4 q token quoted escapedstate)
  then show ?case by simp
next
  case (5 q token quoted escapedstate nextchar instream)
  then show ?case by (auto split: if_splits intro: le_SucI)
next
  case (6 e token quoted escapedstate)
  then show ?case by simp
next
  case (7 e token quoted escapedstate nextchar instream)
  then show ?case by (auto simp: Let_def intro: le_SucI)
next
  case (8 token quoted escapedstate)
  then show ?case by auto
next
  case (9 token quoted escapedstate nextchar instream)
  then show ?case by (auto split: if_splits intro: le_SucI)
qed

lemma read_loop_Cons:
  assumes "read_loop state token quoted escapedstate (c # cs) = Inr (state', token', quoted', rest)"
  shows "length rest \<le> length cs"
proof (cases state)
  case St_None
  with assms show ?thesis by auto
next
  case St_space
  with assms show ?thesis
    by (simp split: if_splits) (auto dest: read_loop_le)
next
  case St_a
  with assms show ?thesis
    by (simp split: if_splits) (auto dest: read_loop_le)
next
  case (St_quote q)
  with assms show ?thesis
    by (simp split: if_splits) (auto dest: read_loop_le)
next
  case (St_escape e)
  with assms show ?thesis
    by (simp add: Let_def) (auto dest: read_loop_le)
qed

lemma read_loop_Nil:
  "read_loop state token quoted escapedstate [] = Inr (state', token', quoted', rest) \<Longrightarrow>
     quoted' = quoted \<and> (token' = token \<or> token' = [])"
  by (cases state) auto

lemma read_token_consumes:
  assumes "read_token state instream = Inr (Some tok, state', rest)"
  shows "length rest < length instream"
proof (cases "read_loop state [] False St_space instream")
  case (Inl e)
  with assms show ?thesis by (simp add: read_token_def)
next
  case (Inr r)
  obtain st token quoted rest' where r: "r = (st, token, quoted, rest')"
    by (cases r) auto
  from assms Inr r have rest: "rest' = rest" and emit: "quoted \<or> token \<noteq> []"
    by (auto simp: read_token_def split: if_splits)
  show ?thesis
  proof (cases instream)
    case Nil
    with Inr r emit show ?thesis by (auto dest: read_loop_Nil)
  next
    case (Cons c cs)
    with Inr r rest show ?thesis by (auto dest: read_loop_Cons)
  qed
qed

text \<open>
  \<^verbatim>\<open>list(lex)\<close>: \<^verbatim>\<open>__next__\<close> calls \<^verbatim>\<open>get_token\<close>, which calls
  \<^verbatim>\<open>read_token\<close> (nothing is ever pushed back, no file is ever sourced) and stops
  at the end-of-file token \<^verbatim>\<open>None\<close>.  The lexer keeps its \<^verbatim>\<open>state\<close> and its
  input position from one token to the next.  A token that is not \<^verbatim>\<open>None\<close>
  costs at least one character, which is why the iteration ends.
\<close>

function tokens :: "lex_state \<Rightarrow> string \<Rightarrow> exn + string list" where
  "tokens state instream =
     (case read_token state instream of
        Inl e \<Rightarrow> Inl e
      | Inr (None, state', instream') \<Rightarrow> Inr []
      | Inr (Some tok, state', instream') \<Rightarrow>
          (case tokens state' instream' of
             Inl e \<Rightarrow> Inl e
           | Inr toks \<Rightarrow> Inr (tok # toks)))"
  by pat_completeness auto
termination
  by (relation "measure (\<lambda>(state, instream). length instream)")
     (auto dest: read_token_consumes)

declare tokens.simps [simp del]

definition shlex_split :: "string \<Rightarrow> exn + string list" where
  "shlex_split s = tokens St_space s"

section \<open>Strings and lists of Python\<close>

text \<open>
  A Python \<^verbatim>\<open>str\<close> is modelled as a \<^typ>\<open>string\<close>; a character is a code point
  below 256.
\<close>

definition startswith :: "string \<Rightarrow> string \<Rightarrow> bool" where
  "startswith s p = (take (length p) s = p)"

definition endswith :: "string \<Rightarrow> string \<Rightarrow> bool" where
  "endswith s p = (length p \<le> length s \<and> drop (length s - length p) s = p)"

text \<open>\<^verbatim>\<open>s.replace(old, new, count)\<close> for a one-character \<^verbatim>\<open>old\<close> and \<^verbatim>\<open>count >= 0\<close>.\<close>

fun str_replace :: "string \<Rightarrow> char \<Rightarrow> string \<Rightarrow> nat \<Rightarrow> string" where
  "str_replace [] old new count = []"
| "str_replace (c # cs) old new count =
     (if count = 0 then c # cs
      else if c = old then new @ str_replace cs old new (count - 1)
      else c # str_replace cs old new count)"

text \<open>\<^verbatim>\<open>s.find(c, start)\<close> for a one-character \<^verbatim>\<open>c\<close>; \<open>None\<close> is Python's \<^verbatim>\<open>-1\<close>.\<close>

definition str_find :: "string \<Rightarrow> char \<Rightarrow> nat \<Rightarrow> nat option" where
  "str_find s c start =
     (if c \<in> set (drop start s)
      then Some (start + length (takeWhile (\<lambda>x. x \<noteq> c) (drop start s)))
      else None)"

text \<open>\<^verbatim>\<open>s.rstrip(c)\<close> for a one-character \<^verbatim>\<open>c\<close>.\<close>

definition str_rstrip :: "string \<Rightarrow> char \<Rightarrow> string" where
  "str_rstrip s c = rev (dropWhile (\<lambda>x. x = c) (rev s))"

text \<open>\<^verbatim>\<open>s.split(sep)\<close> for a one-character \<^verbatim>\<open>sep\<close>, and \<^verbatim>\<open>sep.join(xs)\<close>.\<close>

fun str_split :: "string \<Rightarrow> char \<Rightarrow> string list" where
  "str_split [] sep = [[]]"
| "str_split (c # cs) sep =
     (if c = sep then [] # str_split cs sep
      else (case str_split cs sep of
              [] \<Rightarrow> [[c]]
            | w # ws \<Rightarrow> (c # w) # ws))"

fun str_join :: "string \<Rightarrow> string list \<Rightarrow> string" where
  "str_join sep [] = []"
| "str_join sep [x] = x"
| "str_join sep (x # y # ys) = x @ sep @ str_join sep (y # ys)"

text \<open>\<^verbatim>\<open>xs[i]\<close> for \<^verbatim>\<open>i >= 0\<close>: out of range it raises \<^verbatim>\<open>IndexError\<close>.\<close>

definition list_getitem :: "'a list \<Rightarrow> nat \<Rightarrow> exn + 'a" where
  "list_getitem xs i = (if i < length xs then Inr (xs ! i) else Inl IndexError)"

text \<open>
  \<^verbatim>\<open>repr\<close> of a \<^verbatim>\<open>str\<close> and of a list of them, which
  \<^verbatim>\<open>'Illegal command {}'.format(cmdargv)\<close> prints.  The quote is \<^verbatim>\<open>"\<close> when the
  string has a \<^verbatim>\<open>'\<close> and no \<^verbatim>\<open>"\<close>, and \<^verbatim>\<open>'\<close> otherwise; the quote and the
  backslash are escaped, tab, newline and return are written \<^verbatim>\<open>\t\<close>, \<^verbatim>\<open>\n\<close>,
  \<^verbatim>\<open>\r\<close>, and every other character that is not printable is written
  \<^verbatim>\<open>\xhh\<close>.
\<close>

definition hexdigit :: "nat \<Rightarrow> char" where
  "hexdigit n = ''0123456789abcdef'' ! (n mod 16)"

definition isprintable :: "char \<Rightarrow> bool" where
  "isprintable ch =
     (let n = (of_char ch :: nat)
      in (0x20 \<le> n \<and> n < 0x7F) \<or> (0xA1 \<le> n \<and> n \<noteq> 0xAD))"

definition repr_char :: "char \<Rightarrow> char \<Rightarrow> string" where
  "repr_char quote ch =
     (if ch = quote \<or> ch = CHR 0x5C then [CHR 0x5C, ch]
      else if ch = CHR 0x09 then [CHR 0x5C, CHR ''t'']
      else if ch = CHR 0x0A then [CHR 0x5C, CHR ''n'']
      else if ch = CHR 0x0D then [CHR 0x5C, CHR ''r'']
      else if \<not> isprintable ch then
        [CHR 0x5C, CHR ''x'', hexdigit (of_char ch div 16), hexdigit (of_char ch mod 16)]
      else [ch])"

definition repr_str :: "string \<Rightarrow> string" where
  "repr_str s =
     (let quote = (if CHR 0x27 \<in> set s \<and> CHR 0x22 \<notin> set s then CHR 0x22 else CHR 0x27)
      in [quote] @ concat (map (repr_char quote) s) @ [quote])"

definition repr_list :: "string list \<Rightarrow> string" where
  "repr_list xs = ''['' @ str_join '', '' (map repr_str xs) @ '']''"

section \<open>The process environment and \<^verbatim>\<open>os.path\<close>\<close>

text \<open>
  What the script reads from its process: the environment variables, the current
  working directory, and the home directories of the password database
  (\<^verbatim>\<open>pwd.getpwuid(os.getuid()).pw_dir\<close> and \<^verbatim>\<open>pwd.getpwnam(name).pw_dir\<close>; \<open>None\<close>
  is their \<^verbatim>\<open>KeyError\<close>).
\<close>

record os_env =
  environ :: "string \<rightharpoonup> string"
  getcwd :: string
  getpwuid_dir :: "string option"
  getpwnam_dir :: "string \<rightharpoonup> string"

definition getenv :: "os_env \<Rightarrow> string \<Rightarrow> string \<Rightarrow> string" where
  "getenv env key dflt = (case environ env key of None \<Rightarrow> dflt | Some v \<Rightarrow> v)"

definition os_sep :: char where
  "os_sep = CHR ''/''"

definition isabs :: "string \<Rightarrow> bool" where
  "isabs s = startswith s [os_sep]"

text \<open>\<^verbatim>\<open>posixpath.join(a, b)\<close>.\<close>

definition path_join :: "string \<Rightarrow> string \<Rightarrow> string" where
  "path_join a b =
     (if startswith b [os_sep] then b
      else if a = [] \<or> endswith a [os_sep] then a @ b
      else a @ [os_sep] @ b)"

text \<open>
  \<^verbatim>\<open>posixpath.expanduser\<close>: a path that does not start with \<^verbatim>\<open>~\<close> is returned as it
  is; \<^verbatim>\<open>~\<close> alone (up to the first separator) is \<^verbatim>\<open>$HOME\<close>, or the home of the
  current user when \<^verbatim>\<open>HOME\<close> is not set; \<^verbatim>\<open>~name\<close> is the home of \<^verbatim>\<open>name\<close>; a
  home that is not found leaves the path as it is.
\<close>

definition expanduser :: "os_env \<Rightarrow> string \<Rightarrow> string" where
  "expanduser env path =
     (if \<not> startswith path ''~'' then path
      else
        let i = (case str_find path os_sep 1 of None \<Rightarrow> length path | Some j \<Rightarrow> j);
            home = (if i = 1 then
                      (case environ env ''HOME'' of
                         None \<Rightarrow> getpwuid_dir env
                       | Some h \<Rightarrow> Some h)
                    else getpwnam_dir env (take (i - 1) (drop 1 path)))
        in case home of
             None \<Rightarrow> path
           | Some userhome \<Rightarrow>
               (let expanded = str_rstrip userhome os_sep @ drop i path
                in if expanded = [] then [os_sep] else expanded))"

text \<open>
  \<^verbatim>\<open>posixpath.normpath\<close>: \<^verbatim>\<open>splitroot\<close> takes the root off (no slash, one, or
  exactly two), the loop drops empty and \<^verbatim>\<open>.\<close> components and resolves \<^verbatim>\<open>..\<close>
  against the components kept so far.
\<close>

definition splitroot :: "string \<Rightarrow> string \<times> string" where
  "splitroot p =
     (if take 1 p \<noteq> [os_sep] then ([], p)
      else if take 1 (drop 1 p) \<noteq> [os_sep] \<or> take 1 (drop 2 p) = [os_sep]
        then ([os_sep], drop 1 p)
      else (take 2 p, drop 2 p))"

fun norm_comps :: "string \<Rightarrow> string list \<Rightarrow> string list \<Rightarrow> string list" where
  "norm_comps initial_slashes new_comps [] = new_comps"
| "norm_comps initial_slashes new_comps (name # comps) =
     (if name = [] \<or> name = ''.'' then norm_comps initial_slashes new_comps comps
      else if name \<noteq> ''..'' \<or> (initial_slashes = [] \<and> new_comps = [])
                \<or> (new_comps \<noteq> [] \<and> last new_comps = ''..'')
        then norm_comps initial_slashes (new_comps @ [name]) comps
      else if new_comps \<noteq> [] then norm_comps initial_slashes (butlast new_comps) comps
      else norm_comps initial_slashes new_comps comps)"

definition normpath :: "string \<Rightarrow> string" where
  "normpath path =
     (if path = [] then ''.''
      else
        let (initial_slashes, tail) = splitroot path;
            comps = norm_comps initial_slashes [] (str_split tail os_sep);
            path' = initial_slashes @ str_join [os_sep] comps
        in if path' = [] then ''.'' else path')"

definition abspath :: "os_env \<Rightarrow> string \<Rightarrow> string" where
  "abspath env path =
     (if \<not> isabs path then normpath (path_join (getcwd env) path) else normpath path)"

section \<open>The configuration and the child process\<close>

text \<open>
  The script reads the \<^verbatim>\<open>ConfigParser\<close> object only through its mapping protocol.
  \<^verbatim>\<open>config[name]\<close> raises \<^verbatim>\<open>KeyError\<close> (\<open>None\<close>) or gives the proxy of the section;
  \<^verbatim>\<open>proxy[key]\<close> raises \<^verbatim>\<open>KeyError\<close>, returns the value of the option, or raises
  another exception (an interpolation error of \<^verbatim>\<open>configparser\<close>).  A configuration
  is taken as this view of the file that \<^verbatim>\<open>config.read(args.conf)\<close> has loaded, and
  \<^verbatim>\<open>args.user\<close> as the first argument that \<^verbatim>\<open>argparse\<close> has accepted.
\<close>

datatype 'a lookup = KeyError | Found 'a | Raises exn

type_synonym section_proxy = "string \<Rightarrow> string lookup"

type_synonym config = "string \<Rightarrow> section_proxy option"

text \<open>
  \<^verbatim>\<open>subprocess.run(cmd, stdin=..., stdout=..., stderr=...)\<close> either returns a
  \<^verbatim>\<open>CompletedProcess\<close> with the return code of the child (negative when a signal
  ended it), or raises (the program is not found, for one).  What it does for a
  given argument vector is a parameter of the model.
\<close>

datatype run_result = CompletedProcess int | RunRaises exn

text \<open>
  What a call of \<^verbatim>\<open>main()\<close> leaves behind: the argument vectors it handed to
  \<^verbatim>\<open>subprocess.run\<close>, in order, and the exception it ended with, if any.
\<close>

record trace =
  run_calls :: "string list list"
  raised :: "exn option"

section \<open>\<^verbatim>\<open>main\<close>\<close>

text \<open>
  Lines 79 to 85: the original command is read from the environment, split, and
  compared with the one command that is allowed.  \<^verbatim>\<open>cmdargv[:2]\<close> is \<open>take 2\<close> and
  \<^verbatim>\<open>cmdargv[3:]\<close> is \<open>drop 3\<close>.
\<close>

definition legal_command :: "string list \<Rightarrow> bool" where
  "legal_command cmdargv =
     (take 2 cmdargv = [''hg'', ''-R''] \<and> drop 3 cmdargv = [''serve'', ''--stdio''])"

definition validate :: "os_env \<Rightarrow> exn + string list" where
  "validate env =
     (let orig_cmd = getenv env ''SSH_ORIGINAL_COMMAND'' ''?''
      in case shlex_split orig_cmd of
           Inl e \<Rightarrow> Inl e
         | Inr cmdargv \<Rightarrow>
             if \<not> legal_command cmdargv
             then Inl (ValueError (''Illegal command '' @ repr_list cmdargv))
             else Inr cmdargv)"

text \<open>
  Lines 87 to 104: the name of the repository, its section, its location made
  absolute, and the access of the user.  The result is \<^verbatim>\<open>(repo_path, access)\<close>.
\<close>

definition repo_name_of :: "string \<Rightarrow> string" where
  "repo_name_of token = str_replace token os_sep [] 1"

definition resolve :: "os_env \<Rightarrow> string \<Rightarrow> config \<Rightarrow> string \<Rightarrow> exn + (string \<times> string)" where
  "resolve env user config token =
     (let repo_name = repo_name_of token
      in case config (''repos.'' @ repo_name) of
           None \<Rightarrow> Inl (ValueError ''No such repository'')
         | Some repo_conf \<Rightarrow>
             (case repo_conf ''location'' of
                KeyError \<Rightarrow> Inl (ValueError ''Bad config: no location for repository'')
              | Raises e \<Rightarrow> Inl e
              | Found location \<Rightarrow>
                  (let repo_path = abspath env (expanduser env location)
                   in case repo_conf user of
                        KeyError \<Rightarrow> Inl (ValueError ''Access denied'')
                      | Raises e \<Rightarrow> Inl e
                      | Found access \<Rightarrow>
                          if access \<notin> set [''read'', ''write'']
                          then Inl (ValueError ''Access denied'')
                          else Inr (repo_path, access))))"

text \<open>Lines 106 to 112: the argument vector, behind \<^verbatim>\<open>sudo\<close> for a reader.\<close>

definition build_cmd :: "config \<Rightarrow> string \<Rightarrow> string \<Rightarrow> exn + string list" where
  "build_cmd config repo_path access =
     (let cmd = [''hg'', ''-R'', repo_path, ''serve'', ''--stdio'']
      in if access = ''read'' then
           (case config ''readonly'' of
              None \<Rightarrow> Inl (ValueError ''Bad config: no readonly sudo user'')
            | Some readonly \<Rightarrow>
                (case readonly ''sudo'' of
                   KeyError \<Rightarrow> Inl (ValueError ''Bad config: no readonly sudo user'')
                 | Raises e \<Rightarrow> Inl e
                 | Found sudo_user \<Rightarrow> Inr ([''sudo'', ''--user='' @ sudo_user, ''--''] @ cmd)))
         else Inr cmd)"

text \<open>
  \<^verbatim>\<open>main\<close>, after its arguments and its configuration are read: the three parts
  in order, then \<^verbatim>\<open>subprocess.run(cmd, ...)\<close>, whose result is dropped.
\<close>

definition raise :: "exn \<Rightarrow> trace" where
  "raise e = \<lparr>run_calls = [], raised = Some e\<rparr>"

definition main :: "os_env \<Rightarrow> string \<Rightarrow> config \<Rightarrow> (string list \<Rightarrow> run_result) \<Rightarrow> trace" where
  "main env user config run =
     (case validate env of
        Inl e \<Rightarrow> raise e
      | Inr cmdargv \<Rightarrow>
          (case list_getitem cmdargv 2 of
             Inl e \<Rightarrow> raise e
           | Inr token \<Rightarrow>
               (case resolve env user config token of
                  Inl e \<Rightarrow> raise e
                | Inr (repo_path, access) \<Rightarrow>
                    (case build_cmd config repo_path access of
                       Inl e \<Rightarrow> raise e
                     | Inr cmd \<Rightarrow>
                         (case run cmd of
                            CompletedProcess returncode \<Rightarrow>
                              \<lparr>run_calls = [cmd], raised = None\<rparr>
                          | RunRaises e \<Rightarrow>
                              \<lparr>run_calls = [cmd], raised = Some e\<rparr>)))))"

section \<open>The script\<close>

text \<open>
  Lines 119 to 124: an exception of \<^verbatim>\<open>main()\<close> is printed on the error stream and
  the script exits with status 1; when \<^verbatim>\<open>main()\<close> returns, the script ends and
  the status is 0.  \<^verbatim>\<open>print(e)\<close> writes \<^verbatim>\<open>str(e)\<close>.  A run of the script leaves
  behind the argument vectors that were handed to \<^verbatim>\<open>subprocess.run\<close> (when there is
  none, no process was spawned), the lines the script itself wrote on the error stream,
  and its exit status.
\<close>

fun str_exn :: "exn \<Rightarrow> string" where
  "str_exn (ValueError msg) = msg"
| "str_exn IndexError = ''list index out of range''"
| "str_exn (OtherException msg) = msg"

record process =
  subprocess_calls :: "string list list"
  stderr_lines :: "string list"
  exit_status :: int

definition script :: "os_env \<Rightarrow> string \<Rightarrow> config \<Rightarrow> (string list \<Rightarrow> run_result) \<Rightarrow> process" where
  "script env user config run =
     (let t = main env user config run
      in case raised t of
           None \<Rightarrow> \<lparr>subprocess_calls = run_calls t, stderr_lines = [], exit_status = 0\<rparr>
         | Some e \<Rightarrow> \<lparr>subprocess_calls = run_calls t, stderr_lines = [str_exn e], exit_status = 1\<rparr>)"

section \<open>An example installation\<close>

text \<open>
  The access list of the examples: a read-only user \<^verbatim>\<open>hgread\<close>, the repository
  \<^verbatim>\<open>myrepo1\<close> at a relative location that \<^verbatim>\<open>alice\<close> may write and \<^verbatim>\<open>bob\<close> may
  read (and where the grant of \<^verbatim>\<open>eve\<close> is misspelt), the repository \<^verbatim>\<open>docs\<close>
  under the home directory, and the repository \<^verbatim>\<open>team/proj\<close>.  The second list is
  the same without its \<^verbatim>\<open>[readonly]\<close> section.
\<close>

definition example_repos :: config where
  "example_repos name =
     (if name = ''repos.myrepo1'' then
        Some (\<lambda>key. if key = ''location'' then Found ''relative/path''
                    else if key = ''alice'' then Found ''write''
                    else if key = ''bob'' then Found ''read''
                    else if key = ''eve'' then Found ''Write''
                    else KeyError)
      else if name = ''repos.docs'' then
        Some (\<lambda>key. if key = ''location'' then Found ''~/repos/docs''
                    else if key = ''alice'' then Found ''write''
                    else KeyError)
      else if name = ''repos.team/proj'' then
        Some (\<lambda>key. if key = ''location'' then Found ''/srv/team/proj''
                    else if key = ''alice'' then Found ''write''
                    else KeyError)
      else None)"

definition example_acl :: config where
  "example_acl name =
     (if name = ''readonly'' then
        Some (\<lambda>key. if key = ''sudo'' then Found ''hgread'' else KeyError)
      else example_repos name)"

text \<open>
  The process of the examples runs in \<^verbatim>\<open>/srv/hg\<close> with \<^verbatim>\<open>HOME=/home/hg\<close>; its
  argument is the value of \<^verbatim>\<open>SSH_ORIGINAL_COMMAND\<close>, if the variable is set.
\<close>

definition example_env :: "string option \<Rightarrow> os_env" where
  "example_env orig_cmd =
     \<lparr>environ = (\<lambda>key. if key = ''SSH_ORIGINAL_COMMAND'' then orig_cmd
                       else if key = ''HOME'' then Some ''/home/hg''
                       else None),
      getcwd = ''/srv/hg'',
      getpwuid_dir = Some ''/home/hg'',
      getpwnam_dir = Map.empty\<rparr>"

text \<open>A command with a quote that is never closed: \<^verbatim>\<open>hg -R 'myrepo1 serve --stdio\<close>.\<close>

definition unbalanced_command :: string where
  "unbalanced_command = ''hg -R '' @ [CHR 0x27] @ ''myrepo1 serve --stdio''"

section \<open>Lemmas\<close>

subsection \<open>The errors of the lexer\<close>

lemma read_loop_error:
  "read_loop state token quoted escapedstate instream = Inl e \<Longrightarrow>
     e = ValueError ''No closing quotation'' \<or> e = ValueError ''No escaped character''"
proof (induction state token quoted escapedstate instream rule: read_loop.induct)
  case (1 token quoted escapedstate instream)
  then show ?case by simp
next
  case (2 token quoted escapedstate)
  then show ?case by simp
next
  case (3 token quoted escapedstate nextchar instream)
  then show ?case by (simp split: if_splits)
next
  case (4 q token quoted escapedstate)
  then show ?case by simp
next
  case (5 q token quoted escapedstate nextchar instream)
  then show ?case by (simp split: if_splits)
next
  case (6 e token quoted escapedstate)
  then show ?case by simp
next
  case (7 e token quoted escapedstate nextchar instream)
  then show ?case by (simp add: Let_def)
next
  case (8 token quoted escapedstate)
  then show ?case by simp
next
  case (9 token quoted escapedstate nextchar instream)
  then show ?case by (simp split: if_splits)
qed

lemma read_token_error:
  assumes "read_token state instream = Inl e"
  shows "e = ValueError ''No closing quotation'' \<or> e = ValueError ''No escaped character''"
proof (cases "read_loop state [] False St_space instream")
  case (Inl e')
  with assms have "e' = e" by (simp add: read_token_def)
  with Inl show ?thesis by (auto dest: read_loop_error)
next
  case (Inr r)
  with assms show ?thesis by (simp add: read_token_def split: prod.splits)
qed

lemma tokens_error:
  "tokens state instream = Inl e \<Longrightarrow>
     e = ValueError ''No closing quotation'' \<or> e = ValueError ''No escaped character''"
proof (induction state instream rule: tokens.induct)
  case (1 state instream)
  show ?case
  proof (cases "read_token state instream")
    case (Inl e')
    with "1.prems" have "e' = e" by (simp add: tokens.simps [of state instream])
    with Inl show ?thesis by (auto dest: read_token_error)
  next
    case (Inr r)
    obtain res state' instream' where r: "r = (res, state', instream')"
      by (cases r) auto
    show ?thesis
    proof (cases res)
      case None
      with Inr r "1.prems" show ?thesis by (simp add: tokens.simps [of state instream])
    next
      case (Some tok)
      with Inr r "1.prems" have "tokens state' instream' = Inl e"
        by (simp add: tokens.simps [of state instream] split: sum.splits)
      with "1.IH" Inr r Some show ?thesis by simp
    qed
  qed
qed

lemma shlex_split_error:
  "shlex_split s = Inl e \<Longrightarrow>
     e = ValueError ''No closing quotation'' \<or> e = ValueError ''No escaped character''"
  unfolding shlex_split_def by (rule tokens_error)

subsection \<open>The allowed command\<close>

lemma legal_command_iff:
  "legal_command cmdargv \<longleftrightarrow>
     (\<exists>repo_token. cmdargv = [''hg'', ''-R'', repo_token, ''serve'', ''--stdio''])"
proof
  assume legal: "legal_command cmdargv"
  then have first_two: "take 2 cmdargv = [''hg'', ''-R'']"
    and from_third: "drop 3 cmdargv = [''serve'', ''--stdio'']"
    by (simp_all add: legal_command_def)
  from from_third have "length (drop 3 cmdargv) = 2" by simp
  then have "length cmdargv = 5" by simp
  then obtain a b c d e where shape: "cmdargv = [a, b, c, d, e]"
    by (auto simp: eval_nat_numeral length_Suc_conv)
  with first_two from_third show "\<exists>repo_token. cmdargv = [''hg'', ''-R'', repo_token, ''serve'', ''--stdio'']"
    by simp
next
  assume "\<exists>repo_token. cmdargv = [''hg'', ''-R'', repo_token, ''serve'', ''--stdio'']"
  then show "legal_command cmdargv"
    by (auto simp: legal_command_def)
qed

lemma validate_cases:
  assumes "shlex_split (getenv env ''SSH_ORIGINAL_COMMAND'' ''?'') = Inr cmdargv"
  shows "validate env =
           (if legal_command cmdargv then Inr cmdargv
            else Inl (ValueError (''Illegal command '' @ repr_list cmdargv)))"
  using assms by (simp add: validate_def)

lemma main_validate_Inl:
  "validate env = Inl e \<Longrightarrow> main env user config run = raise e"
  by (simp add: main_def)

lemma script_raise:
  "main env user config run = raise e \<Longrightarrow>
     script env user config run = \<lparr>subprocess_calls = [], stderr_lines = [str_exn e], exit_status = 1\<rparr>"
  by (simp add: script_def raise_def)

lemma main_run:
  assumes "validate env = Inr cmdargv"
    and "list_getitem cmdargv 2 = Inr token"
    and "resolve env user config token = Inr (repo_path, access)"
    and "build_cmd config repo_path access = Inr cmd"
  shows "main env user config run =
           \<lparr>run_calls = [cmd],
            raised = (case run cmd of CompletedProcess returncode \<Rightarrow> None | RunRaises e \<Rightarrow> Some e)\<rparr>"
  using assms by (simp add: main_def split: run_result.splits)

lemma validate_serve:
  assumes "shlex_split (getenv env ''SSH_ORIGINAL_COMMAND'' ''?'') =
             Inr [''hg'', ''-R'', token, ''serve'', ''--stdio'']"
  shows "validate env = Inr [''hg'', ''-R'', token, ''serve'', ''--stdio'']"
    and "list_getitem [''hg'', ''-R'', token, ''serve'', ''--stdio''] 2 = Inr token"
  using assms by (simp_all add: validate_cases legal_command_iff list_getitem_def)

lemma main_resolve_Inl:
  assumes "shlex_split (getenv env ''SSH_ORIGINAL_COMMAND'' ''?'') =
             Inr [''hg'', ''-R'', token, ''serve'', ''--stdio'']"
    and "resolve env user config token = Inl e"
  shows "main env user config run = raise e"
  using assms by (simp add: main_def validate_serve)

lemma main_build_Inl:
  assumes "shlex_split (getenv env ''SSH_ORIGINAL_COMMAND'' ''?'') =
             Inr [''hg'', ''-R'', token, ''serve'', ''--stdio'']"
    and "resolve env user config token = Inr (repo_path, access)"
    and "build_cmd config repo_path access = Inl e"
  shows "main env user config run = raise e"
  using assms by (simp add: main_def validate_serve)

subsection \<open>The example commands, split\<close>

lemma getenv_example:
  "getenv (example_env (Some orig_cmd)) ''SSH_ORIGINAL_COMMAND'' ''?'' = orig_cmd"
  "getenv (example_env None) ''SSH_ORIGINAL_COMMAND'' ''?'' = ''?''"
  by (simp_all add: getenv_def example_env_def)

lemma split_myrepo1:
  "shlex_split ''hg -R myrepo1 serve --stdio'' =
     Inr [''hg'', ''-R'', ''myrepo1'', ''serve'', ''--stdio'']"
  by code_simp

lemma split_myrepo2:
  "shlex_split ''hg -R myrepo2 serve --stdio'' =
     Inr [''hg'', ''-R'', ''myrepo2'', ''serve'', ''--stdio'']"
  by code_simp

lemma split_docs:
  "shlex_split ''hg -R docs serve --stdio'' =
     Inr [''hg'', ''-R'', ''docs'', ''serve'', ''--stdio'']"
  by code_simp

lemma split_injection:
  "shlex_split ''hg -R myrepo1 serve --stdio; rm -rf /'' =
     Inr [''hg'', ''-R'', ''myrepo1'', ''serve'', ''--stdio;'', ''rm'', ''-rf'', ''/'']"
  by code_simp

lemma split_question_mark: "shlex_split ''?'' = Inr [''?'']"
  by code_simp

lemma split_unbalanced:
  "shlex_split unbalanced_command = Inl (ValueError ''No closing quotation'')"
  by code_simp

lemma repr_question_mark:
  "repr_list [''?''] = [CHR ''['', CHR 0x27, CHR ''?'', CHR 0x27, CHR '']'']"
  by (simp add: repr_list_def repr_str_def repr_char_def isprintable_def Let_def)

subsection \<open>The name of the repository\<close>

lemma str_replace_zero: "str_replace s old new 0 = s"
  by (cases s) simp_all

lemma str_replace_absent: "old \<notin> set s \<Longrightarrow> str_replace s old new count = s"
  by (induction s) auto

lemma str_replace_first:
  "old \<notin> set pre \<Longrightarrow>
     str_replace (pre @ old # post) old new (Suc count) = pre @ new @ str_replace post old new count"
  by (induction pre) auto

lemma repo_name_of_first:
  "os_sep \<notin> set pre \<Longrightarrow> repo_name_of (pre @ os_sep # post) = pre @ post"
  using str_replace_first [of os_sep pre post "[]" 0]
  by (simp add: repo_name_of_def str_replace_zero)

lemma repo_name_of_leading: "repo_name_of (os_sep # rest) = rest"
  using repo_name_of_first [of "[]" rest] by simp

lemma repo_name_of_no_separator: "os_sep \<notin> set token \<Longrightarrow> repo_name_of token = token"
  by (simp add: repo_name_of_def str_replace_absent)

subsection \<open>How \<^verbatim>\<open>main\<close> can end\<close>

lemma main_outcome:
  "(\<exists>e. main env user config run = raise e)
   \<or> (\<exists>cmd. main env user config run =
         \<lparr>run_calls = [cmd],
          raised = (case run cmd of CompletedProcess returncode \<Rightarrow> None | RunRaises e \<Rightarrow> Some e)\<rparr>)"
proof (cases "validate env")
  case (Inl e)
  then show ?thesis by (auto simp: main_def)
next
  case cmdargv: (Inr cmdargv)
  show ?thesis
  proof (cases "list_getitem cmdargv 2")
    case (Inl e)
    with cmdargv show ?thesis by (auto simp: main_def)
  next
    case token: (Inr token)
    show ?thesis
    proof (cases "resolve env user config token")
      case (Inl e)
      with cmdargv token show ?thesis by (auto simp: main_def)
    next
      case (Inr r)
      obtain repo_path access where r: "r = (repo_path, access)" by (cases r) auto
      show ?thesis
      proof (cases "build_cmd config repo_path access")
        case (Inl e)
        with cmdargv token Inr r show ?thesis by (auto simp: main_def)
      next
        case cmd: (Inr cmd)
        from cmdargv token Inr r cmd have "main env user config run =
            \<lparr>run_calls = [cmd],
             raised = (case run cmd of CompletedProcess returncode \<Rightarrow> None | RunRaises e \<Rightarrow> Some e)\<rparr>"
          by (simp add: main_run)
        then show ?thesis by blast
      qed
    qed
  qed
qed

subsection \<open>The repository and the access of the user\<close>

lemma repo_name_of_plain [simp]:
  "repo_name_of ''myrepo1'' = ''myrepo1''"
  "repo_name_of ''myrepo2'' = ''myrepo2''"
  by (simp_all add: repo_name_of_def os_sep_def)

lemma resolve_no_section:
  "config (''repos.'' @ repo_name_of token) = None \<Longrightarrow>
     resolve env user config token = Inl (ValueError ''No such repository'')"
  by (simp add: resolve_def)

lemma resolve_no_grant:
  "config (''repos.'' @ repo_name_of token) = Some repo_conf \<Longrightarrow>
   repo_conf ''location'' = Found location \<Longrightarrow>
   repo_conf user = KeyError \<Longrightarrow>
     resolve env user config token = Inl (ValueError ''Access denied'')"
  by (simp add: resolve_def)



lemma resolve_granted:
  "config (''repos.'' @ repo_name_of token) = Some repo_conf \<Longrightarrow>
   repo_conf ''location'' = Found location \<Longrightarrow>
   repo_conf user = Found access \<Longrightarrow>
   access = ''read'' \<or> access = ''write'' \<Longrightarrow>
     resolve env user config token = Inr (abspath env (expanduser env location), access)"
  by (auto simp: resolve_def)

subsection \<open>The argument vector\<close>

lemma build_cmd_write:
  "build_cmd config repo_path ''write'' = Inr [''hg'', ''-R'', repo_path, ''serve'', ''--stdio'']"
  by (simp add: build_cmd_def)

lemma build_cmd_read:
  "config ''readonly'' = Some readonly \<Longrightarrow> readonly ''sudo'' = Found sudo_user \<Longrightarrow>
     build_cmd config repo_path ''read'' =
       Inr [''sudo'', ''--user='' @ sudo_user, ''--'', ''hg'', ''-R'', repo_path, ''serve'', ''--stdio'']"
  by (simp add: build_cmd_def)

lemma build_cmd_no_sudo:
  "config ''readonly'' = None \<or>
   (\<exists>readonly. config ''readonly'' = Some readonly \<and> readonly ''sudo'' = KeyError) \<Longrightarrow>
     build_cmd config repo_path ''read'' = Inl (ValueError ''Bad config: no readonly sudo user'')"
  by (auto simp: build_cmd_def)

lemma main_spawns:
  assumes "shlex_split (getenv env ''SSH_ORIGINAL_COMMAND'' ''?'') =
             Inr [''hg'', ''-R'', token, ''serve'', ''--stdio'']"
    and "resolve env user config token = Inr (repo_path, access)"
    and "build_cmd config repo_path access = Inr cmd"
  shows "run_calls (main env user config run) = [cmd]"
    and "subprocess_calls (script env user config run) = [cmd]"
proof -
  from assms have "main env user config run =
      \<lparr>run_calls = [cmd],
       raised = (case run cmd of CompletedProcess returncode \<Rightarrow> None | RunRaises e \<Rightarrow> Some e)\<rparr>"
    by (simp add: main_run validate_serve)
  then show "run_calls (main env user config run) = [cmd]"
    and "subprocess_calls (script env user config run) = [cmd]"
    by (simp_all add: script_def Let_def split: run_result.splits)
qed

subsection \<open>Paths\<close>

lemma isabs_Cons: "isabs p \<longleftrightarrow> (\<exists>rest. p = os_sep # rest)"
  by (cases p) (auto simp: isabs_def startswith_def)

lemma isabs_normpath: "isabs p \<Longrightarrow> isabs (normpath p)"
  by (auto simp: isabs_Cons normpath_def splitroot_def Let_def split: if_splits)

lemma isabs_path_join:
  assumes "isabs a"
  shows "isabs (path_join a b)"
proof (cases "startswith b [os_sep]")
  case True
  then show ?thesis by (simp add: path_join_def isabs_def)
next
  case False
  from assms obtain rest where "a = os_sep # rest"
    by (auto simp: isabs_Cons)
  with False show ?thesis by (simp add: path_join_def isabs_Cons)
qed

lemma isabs_abspath: "isabs (getcwd env) \<Longrightarrow> isabs (abspath env p)"
  by (simp add: abspath_def isabs_normpath isabs_path_join)

lemma expanduser_plain: "\<not> startswith p ''~'' \<Longrightarrow> expanduser env p = p"
  by (simp add: expanduser_def)

lemma isabs_no_tilde: "isabs p \<Longrightarrow> \<not> startswith p ''~''"
  by (auto simp: isabs_Cons startswith_def os_sep_def)

lemma str_find_tilde:
  "rest = [] \<or> startswith rest [os_sep] \<Longrightarrow>
     (case str_find (''~'' @ rest) os_sep 1 of None \<Rightarrow> length (''~'' @ rest) | Some j \<Rightarrow> j) = 1"
  by (cases rest) (auto simp: str_find_def startswith_def)

lemma expanduser_home:
  assumes "environ env ''HOME'' = Some home"
    and "rest = [] \<or> startswith rest [os_sep]"
  shows "expanduser env (''~'' @ rest) =
           (if str_rstrip home os_sep @ rest = [] then [os_sep]
            else str_rstrip home os_sep @ rest)"
proof -
  have tilde: "startswith (''~'' @ rest) ''~''"
    by (simp add: startswith_def)
  from str_find_tilde [OF assms(2)] assms(1) tilde show ?thesis
    unfolding expanduser_def by (simp add: Let_def)
qed

section \<open>The claims\<close>

text \<open>
  C1.  Whatever the original command is, the check of lines 81 to 85 lets it pass if
  and only if it splits into exactly the words \<^verbatim>\<open>hg -R <repo> serve --stdio\<close>: five
  words, the four fixed ones in positions 0, 1, 3 and 4; what passes is that sequence of
  words.  Every command that splits into another sequence of words is refused with the
  \<^verbatim>\<open>ValueError\<close> \<^verbatim>\<open>Illegal command [...]\<close>: \<^verbatim>\<open>main\<close> calls \<^verbatim>\<open>subprocess.run\<close> not
  once, and the script prints the message and exits with status 1.
\<close>

theorem C1_validate_accepts_exactly_the_serve_command:
  assumes raw: "getenv env ''SSH_ORIGINAL_COMMAND'' ''?'' = raw"
  shows "((\<exists>cmdargv. validate env = Inr cmdargv) \<longleftrightarrow>
            (\<exists>repo_token. shlex_split raw = Inr [''hg'', ''-R'', repo_token, ''serve'', ''--stdio'']))
       \<and> (\<forall>cmdargv. validate env = Inr cmdargv \<longrightarrow> shlex_split raw = Inr cmdargv)
       \<and> (\<forall>cmdargv. shlex_split raw = Inr cmdargv
             \<and> (\<nexists>repo_token. cmdargv = [''hg'', ''-R'', repo_token, ''serve'', ''--stdio'']) \<longrightarrow>
            validate env = Inl (ValueError (''Illegal command '' @ repr_list cmdargv))
          \<and> main env user config run =
              \<lparr>run_calls = [], raised = Some (ValueError (''Illegal command '' @ repr_list cmdargv))\<rparr>
          \<and> script env user config run =
              \<lparr>subprocess_calls = [], stderr_lines = [''Illegal command '' @ repr_list cmdargv],
               exit_status = 1\<rparr>)"
proof -
  have passed: "shlex_split raw = Inr cmdargv \<and> legal_command cmdargv"
    if "validate env = Inr cmdargv" for cmdargv
    using that raw by (auto simp: validate_def split: sum.splits if_splits)
  have passes: "validate env = Inr cmdargv"
    if "shlex_split raw = Inr cmdargv" and "legal_command cmdargv" for cmdargv
    using that raw by (simp add: validate_cases)
  have refused:
    "validate env = Inl (ValueError (''Illegal command '' @ repr_list cmdargv))
     \<and> main env user config run =
         \<lparr>run_calls = [], raised = Some (ValueError (''Illegal command '' @ repr_list cmdargv))\<rparr>
     \<and> script env user config run =
         \<lparr>subprocess_calls = [], stderr_lines = [''Illegal command '' @ repr_list cmdargv],
          exit_status = 1\<rparr>"
    if split: "shlex_split raw = Inr cmdargv" and illegal: "\<not> legal_command cmdargv" for cmdargv
  proof -
    from split illegal raw
    have rej: "validate env = Inl (ValueError (''Illegal command '' @ repr_list cmdargv))"
      by (simp add: validate_cases)
    then have m: "main env user config run =
        raise (ValueError (''Illegal command '' @ repr_list cmdargv))"
      by (rule main_validate_Inl)
    from script_raise [OF m] m rej show ?thesis
      by (simp add: raise_def)
  qed
  have iff: "(\<exists>cmdargv. validate env = Inr cmdargv) \<longleftrightarrow>
      (\<exists>repo_token. shlex_split raw = Inr [''hg'', ''-R'', repo_token, ''serve'', ''--stdio''])"
  proof
    assume "\<exists>cmdargv. validate env = Inr cmdargv"
    then obtain cmdargv where "validate env = Inr cmdargv" ..
    then have "shlex_split raw = Inr cmdargv" and "legal_command cmdargv"
      using passed by simp_all
    then show "\<exists>repo_token. shlex_split raw = Inr [''hg'', ''-R'', repo_token, ''serve'', ''--stdio'']"
      by (auto simp: legal_command_iff)
  next
    assume "\<exists>repo_token. shlex_split raw = Inr [''hg'', ''-R'', repo_token, ''serve'', ''--stdio'']"
    then obtain repo_token where
      split: "shlex_split raw = Inr [''hg'', ''-R'', repo_token, ''serve'', ''--stdio'']" ..
    have "legal_command [''hg'', ''-R'', repo_token, ''serve'', ''--stdio'']"
      by (simp add: legal_command_def)
    with split have "validate env = Inr [''hg'', ''-R'', repo_token, ''serve'', ''--stdio'']"
      by (rule passes)
    then show "\<exists>cmdargv. validate env = Inr cmdargv" ..
  qed
  have second: "\<forall>cmdargv. validate env = Inr cmdargv \<longrightarrow> shlex_split raw = Inr cmdargv"
  proof (intro allI impI)
    fix cmdargv
    assume "validate env = Inr cmdargv"
    then have "shlex_split raw = Inr cmdargv \<and> legal_command cmdargv"
      by (rule passed)
    then show "shlex_split raw = Inr cmdargv" ..
  qed
  have third: "\<forall>cmdargv. shlex_split raw = Inr cmdargv
             \<and> (\<nexists>repo_token. cmdargv = [''hg'', ''-R'', repo_token, ''serve'', ''--stdio'']) \<longrightarrow>
            validate env = Inl (ValueError (''Illegal command '' @ repr_list cmdargv))
          \<and> main env user config run =
              \<lparr>run_calls = [], raised = Some (ValueError (''Illegal command '' @ repr_list cmdargv))\<rparr>
          \<and> script env user config run =
              \<lparr>subprocess_calls = [], stderr_lines = [''Illegal command '' @ repr_list cmdargv],
               exit_status = 1\<rparr>"
  proof (intro allI impI)
    fix cmdargv
    assume other: "shlex_split raw = Inr cmdargv
             \<and> (\<nexists>repo_token. cmdargv = [''hg'', ''-R'', repo_token, ''serve'', ''--stdio''])"
    then have "shlex_split raw = Inr cmdargv" and "\<not> legal_command cmdargv"
      by (simp_all add: legal_command_iff)
    then show "validate env = Inl (ValueError (''Illegal command '' @ repr_list cmdargv))
          \<and> main env user config run =
              \<lparr>run_calls = [], raised = Some (ValueError (''Illegal command '' @ repr_list cmdargv))\<rparr>
          \<and> script env user config run =
              \<lparr>subprocess_calls = [], stderr_lines = [''Illegal command '' @ repr_list cmdargv],
               exit_status = 1\<rparr>"
      by (rule refused)
  qed
  show ?thesis
    by (rule conjI [OF iff conjI [OF second third]])
qed

theorem C1_validate_accepts_exactly_the_serve_command_witness:
  "validate (example_env (Some ''hg -R myrepo1 serve --stdio'')) =
     Inr [''hg'', ''-R'', ''myrepo1'', ''serve'', ''--stdio'']
   \<and> script (example_env (Some ''hg -R myrepo1 serve --stdio; rm -rf /'')) ''alice'' example_acl
        (\<lambda>cmd. CompletedProcess 0) =
       \<lparr>subprocess_calls = [],
        stderr_lines = [''Illegal command '' @
          repr_list [''hg'', ''-R'', ''myrepo1'', ''serve'', ''--stdio;'', ''rm'', ''-rf'', ''/'']],
        exit_status = 1\<rparr>"
proof -
  note accepted = C1_validate_accepts_exactly_the_serve_command
      [OF getenv_example(1), of "''hg -R myrepo1 serve --stdio''"
         "''alice''" example_acl "\<lambda>cmd. CompletedProcess 0"]
  note refused = C1_validate_accepts_exactly_the_serve_command
      [OF getenv_example(1), of "''hg -R myrepo1 serve --stdio; rm -rf /''"
         "''alice''" example_acl "\<lambda>cmd. CompletedProcess 0"]
  from accepted split_myrepo1
  have one: "validate (example_env (Some ''hg -R myrepo1 serve --stdio'')) =
     Inr [''hg'', ''-R'', ''myrepo1'', ''serve'', ''--stdio'']"
    by auto
  from refused split_injection
  have two: "script (example_env (Some ''hg -R myrepo1 serve --stdio; rm -rf /'')) ''alice''
        example_acl (\<lambda>cmd. CompletedProcess 0) =
       \<lparr>subprocess_calls = [],
        stderr_lines = [''Illegal command '' @
          repr_list [''hg'', ''-R'', ''myrepo1'', ''serve'', ''--stdio;'', ''rm'', ''-rf'', ''/'']],
        exit_status = 1\<rparr>"
    by simp
  from one two show ?thesis ..
qed

text \<open>
  C2.  The key that is looked up is the token without a single leading separator
  (\<^verbatim>\<open>/repo\<close> becomes \<^verbatim>\<open>repo\<close>); a token that does not start with a separator is
  used as it is, and no other character changes.  Line 87 does this with
  \<^verbatim>\<open>replace(os.sep, '', 1)\<close>, which takes out the first separator wherever it stands,
  and so misses the token whose first separator is not the leading one.  The token
  \<^verbatim>\<open>team/proj\<close> does not start with a separator, yet its key is \<^verbatim>\<open>teamproj\<close>:
  \<^verbatim>\<open>alice\<close>, who may write the repository of the section \<^verbatim>\<open>[repos.team/proj]\<close>, is
  told \<^verbatim>\<open>No such repository\<close> when she asks for \<^verbatim>\<open>team/proj\<close>, and is served when
  she asks for \<^verbatim>\<open>/team/proj\<close>.
\<close>

theorem C2_first_separator_is_dropped_wherever_it_stands:
  "\<not> startswith ''team/proj'' [os_sep]
   \<and> repo_name_of ''team/proj'' = ''teamproj''
   \<and> repo_name_of ''team/proj'' \<noteq> ''team/proj''
   \<and> example_acl ''repos.team/proj'' \<noteq> None
   \<and> example_acl ''repos.teamproj'' = None
   \<and> script (example_env (Some ''hg -R team/proj serve --stdio'')) ''alice'' example_acl
        (\<lambda>cmd. CompletedProcess 0) =
       \<lparr>subprocess_calls = [], stderr_lines = [''No such repository''], exit_status = 1\<rparr>
   \<and> script (example_env (Some ''hg -R /team/proj serve --stdio'')) ''alice'' example_acl
        (\<lambda>cmd. CompletedProcess 0) =
       \<lparr>subprocess_calls = [[''hg'', ''-R'', ''/srv/team/proj'', ''serve'', ''--stdio'']],
        stderr_lines = [], exit_status = 0\<rparr>"
proof -
  have no_leading: "\<not> startswith ''team/proj'' [os_sep]"
    by (simp add: startswith_def os_sep_def)
  have key: "repo_name_of ''team/proj'' = ''teamproj''"
    by (simp add: repo_name_of_def os_sep_def)
  have present: "example_acl ''repos.team/proj'' \<noteq> None"
    by (simp add: example_acl_def example_repos_def)
  have absent: "example_acl ''repos.teamproj'' = None"
    by (simp add: example_acl_def example_repos_def)
  have refused: "script (example_env (Some ''hg -R team/proj serve --stdio'')) ''alice'' example_acl
        (\<lambda>cmd. CompletedProcess 0) =
       \<lparr>subprocess_calls = [], stderr_lines = [''No such repository''], exit_status = 1\<rparr>"
    by code_simp
  have served: "script (example_env (Some ''hg -R /team/proj serve --stdio'')) ''alice'' example_acl
        (\<lambda>cmd. CompletedProcess 0) =
       \<lparr>subprocess_calls = [[''hg'', ''-R'', ''/srv/team/proj'', ''serve'', ''--stdio'']],
        stderr_lines = [], exit_status = 0\<rparr>"
    by code_simp
  from no_leading key present absent refused served show ?thesis by simp
qed

text \<open>
  C3 as the specification has it: once the child is run, the exit status of the script
  is 0 exactly when the child succeeded, and not 0 when the child exits with another
  status or is ended by a signal.  The code differs: the result of
  \<^verbatim>\<open>subprocess.run\<close> is dropped.  \<^verbatim>\<open>alice\<close> serves \<^verbatim>\<open>myrepo1\<close>; the child
  returns 1, or is killed by signal 9; the script exits with status 0.
\<close>

theorem C3_exit_status_reflects_child_counterexample:
  "subprocess_calls (script (example_env (Some ''hg -R myrepo1 serve --stdio'')) ''alice'' example_acl
      (\<lambda>cmd. CompletedProcess 1)) =
     [[''hg'', ''-R'', ''/srv/hg/relative/path'', ''serve'', ''--stdio'']]
   \<and> exit_status (script (example_env (Some ''hg -R myrepo1 serve --stdio'')) ''alice'' example_acl
      (\<lambda>cmd. CompletedProcess 1)) = 0
   \<and> exit_status (script (example_env (Some ''hg -R myrepo1 serve --stdio'')) ''alice'' example_acl
      (\<lambda>cmd. CompletedProcess (- 9))) = 0"
  by code_simp

text \<open>
  C3, amended.  Once \<^verbatim>\<open>subprocess.run\<close> is called, it is called once, and the exit
  status of the script is 0 exactly when the call returns, whatever the return code of
  the child, and 1 exactly when the call raises an exception (the program cannot be
  started, for one).
\<close>

theorem C3_exit_status_is_zero_when_run_returns:
  assumes "subprocess_calls (script env user config run) \<noteq> []"
  shows "\<exists>cmd. subprocess_calls (script env user config run) = [cmd]
          \<and> (exit_status (script env user config run) = 0 \<longleftrightarrow>
                (\<exists>returncode. run cmd = CompletedProcess returncode))
          \<and> (exit_status (script env user config run) = 1 \<longleftrightarrow>
                (\<exists>e. run cmd = RunRaises e))"
proof -
  from main_outcome [of env user config run] show ?thesis
  proof
    assume "\<exists>e. main env user config run = raise e"
    then obtain e where "main env user config run = raise e" ..
    then have "subprocess_calls (script env user config run) = []"
      by (simp add: script_raise)
    with assms show ?thesis by simp
  next
    assume "\<exists>cmd. main env user config run =
         \<lparr>run_calls = [cmd],
          raised = (case run cmd of CompletedProcess returncode \<Rightarrow> None | RunRaises e \<Rightarrow> Some e)\<rparr>"
    then obtain cmd where m: "main env user config run =
         \<lparr>run_calls = [cmd],
          raised = (case run cmd of CompletedProcess returncode \<Rightarrow> None | RunRaises e \<Rightarrow> Some e)\<rparr>" ..
    show ?thesis
    proof (cases "run cmd")
      case (CompletedProcess returncode)
      with m have "subprocess_calls (script env user config run) = [cmd]"
        and "exit_status (script env user config run) = 0"
        by (simp_all add: script_def)
      with CompletedProcess show ?thesis by simp
    next
      case (RunRaises e)
      with m have "subprocess_calls (script env user config run) = [cmd]"
        and "exit_status (script env user config run) = 1"
        by (simp_all add: script_def)
      with RunRaises show ?thesis by simp
    qed
  qed
qed

theorem C3_exit_status_is_zero_when_run_returns_witness:
  "subprocess_calls (script (example_env (Some ''hg -R myrepo1 serve --stdio'')) ''alice'' example_acl
      (\<lambda>cmd. CompletedProcess 1)) \<noteq> []
   \<and> exit_status (script (example_env (Some ''hg -R myrepo1 serve --stdio'')) ''alice'' example_acl
      (\<lambda>cmd. CompletedProcess 1)) = 0"
proof -
  have reached: "subprocess_calls (script (example_env (Some ''hg -R myrepo1 serve --stdio'')) ''alice''
      example_acl (\<lambda>cmd. CompletedProcess 1)) \<noteq> []"
    by code_simp
  from C3_exit_status_is_zero_when_run_returns [OF reached] reached show ?thesis
    by auto
qed

text \<open>
  C4 as the specification has it: a run that ends because the repository has no section
  and a run that ends because the user has no grant look the same to the caller, in
  what is printed and in the exit status.  The code differs in what is printed:
  \<^verbatim>\<open>carol\<close> asks for \<^verbatim>\<open>myrepo2\<close>, which has no section, and reads
  \<^verbatim>\<open>No such repository\<close>; she asks for \<^verbatim>\<open>myrepo1\<close>, where she has no grant, and
  reads \<^verbatim>\<open>Access denied\<close>.
\<close>

theorem C4_denials_look_alike_counterexample:
  "example_acl ''repos.myrepo2'' = None
   \<and> script (example_env (Some ''hg -R myrepo2 serve --stdio'')) ''carol'' example_acl
        (\<lambda>cmd. CompletedProcess 0) =
       \<lparr>subprocess_calls = [], stderr_lines = [''No such repository''], exit_status = 1\<rparr>
   \<and> script (example_env (Some ''hg -R myrepo1 serve --stdio'')) ''carol'' example_acl
        (\<lambda>cmd. CompletedProcess 0) =
       \<lparr>subprocess_calls = [], stderr_lines = [''Access denied''], exit_status = 1\<rparr>
   \<and> stderr_lines (script (example_env (Some ''hg -R myrepo2 serve --stdio'')) ''carol'' example_acl
        (\<lambda>cmd. CompletedProcess 0)) \<noteq>
       stderr_lines (script (example_env (Some ''hg -R myrepo1 serve --stdio'')) ''carol'' example_acl
        (\<lambda>cmd. CompletedProcess 0))"
proof -
  have absent: "example_acl ''repos.myrepo2'' = None"
    by (simp add: example_acl_def example_repos_def)
  have no_repo: "script (example_env (Some ''hg -R myrepo2 serve --stdio'')) ''carol'' example_acl
        (\<lambda>cmd. CompletedProcess 0) =
       \<lparr>subprocess_calls = [], stderr_lines = [''No such repository''], exit_status = 1\<rparr>"
    by code_simp
  have no_grant: "script (example_env (Some ''hg -R myrepo1 serve --stdio'')) ''carol'' example_acl
        (\<lambda>cmd. CompletedProcess 0) =
       \<lparr>subprocess_calls = [], stderr_lines = [''Access denied''], exit_status = 1\<rparr>"
    by code_simp
  from absent no_repo no_grant show ?thesis by simp
qed

text \<open>
  C4, amended.  Of two runs with the allowed command, one for a repository without a
  section and one for a repository with a section and a location where the user has no
  grant, neither spawns a process and both exit with status 1; the line on the error
  stream is \<^verbatim>\<open>No such repository\<close> for the first and \<^verbatim>\<open>Access denied\<close> for the
  second, so the exit status hides the difference and the message does not.
\<close>

theorem C4_denials_share_status_not_message:
  assumes "shlex_split (getenv env ''SSH_ORIGINAL_COMMAND'' ''?'') =
             Inr [''hg'', ''-R'', token, ''serve'', ''--stdio'']"
    and "shlex_split (getenv env' ''SSH_ORIGINAL_COMMAND'' ''?'') =
             Inr [''hg'', ''-R'', token', ''serve'', ''--stdio'']"
    and "config (''repos.'' @ repo_name_of token) = None"
    and "config' (''repos.'' @ repo_name_of token') = Some repo_conf"
    and "repo_conf ''location'' = Found location"
    and "repo_conf user' = KeyError"
  shows "script env user config run =
           \<lparr>subprocess_calls = [], stderr_lines = [''No such repository''], exit_status = 1\<rparr>
       \<and> script env' user' config' run' =
           \<lparr>subprocess_calls = [], stderr_lines = [''Access denied''], exit_status = 1\<rparr>
       \<and> exit_status (script env user config run) =
           exit_status (script env' user' config' run')
       \<and> subprocess_calls (script env user config run) = subprocess_calls (script env' user' config' run')
       \<and> stderr_lines (script env user config run) \<noteq>
           stderr_lines (script env' user' config' run')"
proof -
  from assms(3) have "resolve env user config token = Inl (ValueError ''No such repository'')"
    by (rule resolve_no_section)
  with assms(1) have "main env user config run = raise (ValueError ''No such repository'')"
    by (rule main_resolve_Inl)
  then have one: "script env user config run =
           \<lparr>subprocess_calls = [], stderr_lines = [''No such repository''], exit_status = 1\<rparr>"
    by (simp add: script_raise)
  from assms(4-6) have "resolve env' user' config' token' = Inl (ValueError ''Access denied'')"
    by (rule resolve_no_grant)
  with assms(2) have "main env' user' config' run' = raise (ValueError ''Access denied'')"
    by (rule main_resolve_Inl)
  then have two: "script env' user' config' run' =
           \<lparr>subprocess_calls = [], stderr_lines = [''Access denied''], exit_status = 1\<rparr>"
    by (simp add: script_raise)
  from one two show ?thesis by simp
qed

theorem C4_denials_share_status_not_message_witness:
  "script (example_env (Some ''hg -R myrepo2 serve --stdio'')) ''carol'' example_acl
        (\<lambda>cmd. CompletedProcess 0) =
       \<lparr>subprocess_calls = [], stderr_lines = [''No such repository''], exit_status = 1\<rparr>
   \<and> script (example_env (Some ''hg -R myrepo1 serve --stdio'')) ''carol'' example_acl
        (\<lambda>cmd. CompletedProcess 0) =
       \<lparr>subprocess_calls = [], stderr_lines = [''Access denied''], exit_status = 1\<rparr>"
proof -
  have s1: "shlex_split (getenv (example_env (Some ''hg -R myrepo2 serve --stdio''))
        ''SSH_ORIGINAL_COMMAND'' ''?'') = Inr [''hg'', ''-R'', ''myrepo2'', ''serve'', ''--stdio'']"
    by (simp add: getenv_example split_myrepo2)
  have s2: "shlex_split (getenv (example_env (Some ''hg -R myrepo1 serve --stdio''))
        ''SSH_ORIGINAL_COMMAND'' ''?'') = Inr [''hg'', ''-R'', ''myrepo1'', ''serve'', ''--stdio'']"
    by (simp add: getenv_example split_myrepo1)
  have absent: "example_acl (''repos.'' @ repo_name_of ''myrepo2'') = None"
    by (simp add: example_acl_def example_repos_def)
  obtain repo_conf where
    entry: "example_acl (''repos.'' @ repo_name_of ''myrepo1'') = Some repo_conf"
    and location: "repo_conf ''location'' = Found ''relative/path''"
    and no_grant: "repo_conf ''carol'' = KeyError"
    by (simp add: example_acl_def example_repos_def)
  from C4_denials_share_status_not_message
         [where config = example_acl and config' = example_acl and repo_conf = repo_conf
            and user = "''carol''" and user' = "''carol''"
            and run = "\<lambda>cmd. CompletedProcess 0" and run' = "\<lambda>cmd. CompletedProcess 0",
          OF s1 s2 absent entry location no_grant]
  show ?thesis by simp
qed



text \<open>
  C6.  When the user has a \<^verbatim>\<open>read\<close> grant and the configuration names no user to
  run as (there is no section \<^verbatim>\<open>[readonly]\<close>, or it has no option \<^verbatim>\<open>sudo\<close>), the
  run fails with the \<^verbatim>\<open>ValueError\<close> \<^verbatim>\<open>Bad config: no readonly sudo user\<close>: nothing
  is spawned, \<^verbatim>\<open>hg\<close> is not run directly either, and the exit status is 1.
\<close>

theorem C6_read_grant_without_sudo_user_fails:
  assumes split: "shlex_split (getenv env ''SSH_ORIGINAL_COMMAND'' ''?'') =
             Inr [''hg'', ''-R'', token, ''serve'', ''--stdio'']"
    and entry: "config (''repos.'' @ repo_name_of token) = Some repo_conf"
    and location: "repo_conf ''location'' = Found location"
    and grant: "repo_conf user = Found ''read''"
    and no_sudo: "config ''readonly'' = None \<or>
       (\<exists>readonly. config ''readonly'' = Some readonly \<and> readonly ''sudo'' = KeyError)"
  shows "resolve env user config token = Inr (abspath env (expanduser env location), ''read'')
       \<and> main env user config run =
           \<lparr>run_calls = [], raised = Some (ValueError ''Bad config: no readonly sudo user'')\<rparr>
       \<and> script env user config run =
           \<lparr>subprocess_calls = [], stderr_lines = [''Bad config: no readonly sudo user''],
            exit_status = 1\<rparr>"
proof -
  from entry location grant
  have r: "resolve env user config token = Inr (abspath env (expanduser env location), ''read'')"
    by (simp add: resolve_granted)
  from no_sudo have "build_cmd config (abspath env (expanduser env location)) ''read'' =
      Inl (ValueError ''Bad config: no readonly sudo user'')"
    by (rule build_cmd_no_sudo)
  with split r have m: "main env user config run =
      raise (ValueError ''Bad config: no readonly sudo user'')"
    by (rule main_build_Inl)
  from r m script_raise [OF m] show ?thesis by (simp add: raise_def)
qed

theorem C6_read_grant_without_sudo_user_fails_witness:
  "script (example_env (Some ''hg -R myrepo1 serve --stdio'')) ''bob'' example_repos
        (\<lambda>cmd. CompletedProcess 0) =
       \<lparr>subprocess_calls = [], stderr_lines = [''Bad config: no readonly sudo user''], exit_status = 1\<rparr>"
proof -
  have split: "shlex_split (getenv (example_env (Some ''hg -R myrepo1 serve --stdio''))
        ''SSH_ORIGINAL_COMMAND'' ''?'') = Inr [''hg'', ''-R'', ''myrepo1'', ''serve'', ''--stdio'']"
    by (simp add: getenv_example split_myrepo1)
  obtain repo_conf where
    entry: "example_repos (''repos.'' @ repo_name_of ''myrepo1'') = Some repo_conf"
    and location: "repo_conf ''location'' = Found ''relative/path''"
    and grant: "repo_conf ''bob'' = Found ''read''"
    by (simp add: example_repos_def)
  have no_sudo: "example_repos ''readonly'' = None \<or>
       (\<exists>readonly. example_repos ''readonly'' = Some readonly \<and> readonly ''sudo'' = KeyError)"
    by (simp add: example_repos_def)
  from C6_read_grant_without_sudo_user_fails
         [where config = example_repos and run = "\<lambda>cmd. CompletedProcess 0",
          OF split entry location grant no_sudo]
  show ?thesis by simp
qed

text \<open>
  C7.  When the user has a \<^verbatim>\<open>read\<close> grant and the configuration names the user
  \<open>sudo_user\<close> to run as, the one argument vector that is run is
  \<^verbatim>\<open>sudo --user=<sudo_user> -- hg -R <repo_path> serve --stdio\<close>, where \<open>repo_path\<close> is
  the location of the repository made absolute: the vector names exactly that user and
  has \<^verbatim>\<open>--\<close> right before the words of the \<^verbatim>\<open>hg\<close> command.
\<close>

theorem C7_read_grant_runs_hg_behind_sudo:
  assumes split: "shlex_split (getenv env ''SSH_ORIGINAL_COMMAND'' ''?'') =
             Inr [''hg'', ''-R'', token, ''serve'', ''--stdio'']"
    and entry: "config (''repos.'' @ repo_name_of token) = Some repo_conf"
    and location: "repo_conf ''location'' = Found location"
    and grant: "repo_conf user = Found ''read''"
    and ro_section: "config ''readonly'' = Some readonly"
    and sudo: "readonly ''sudo'' = Found sudo_user"
  shows "resolve env user config token = Inr (abspath env (expanduser env location), ''read'')
       \<and> run_calls (main env user config run) =
           [[''sudo'', ''--user='' @ sudo_user, ''--'',
             ''hg'', ''-R'', abspath env (expanduser env location), ''serve'', ''--stdio'']]
       \<and> subprocess_calls (script env user config run) =
           [[''sudo'', ''--user='' @ sudo_user, ''--'',
             ''hg'', ''-R'', abspath env (expanduser env location), ''serve'', ''--stdio'']]"
proof -
  from entry location grant
  have r: "resolve env user config token = Inr (abspath env (expanduser env location), ''read'')"
    by (simp add: resolve_granted)
  from ro_section sudo
  have b: "build_cmd config (abspath env (expanduser env location)) ''read'' =
      Inr [''sudo'', ''--user='' @ sudo_user, ''--'',
           ''hg'', ''-R'', abspath env (expanduser env location), ''serve'', ''--stdio'']"
    by (rule build_cmd_read)
  from r main_spawns [OF split r b] show ?thesis by simp
qed

theorem C7_read_grant_runs_hg_behind_sudo_witness:
  "subprocess_calls (script (example_env (Some ''hg -R myrepo1 serve --stdio'')) ''bob'' example_acl
        (\<lambda>cmd. CompletedProcess 0)) =
     [[''sudo'', ''--user=hgread'', ''--'',
       ''hg'', ''-R'', ''/srv/hg/relative/path'', ''serve'', ''--stdio'']]"
proof -
  have split: "shlex_split (getenv (example_env (Some ''hg -R myrepo1 serve --stdio''))
        ''SSH_ORIGINAL_COMMAND'' ''?'') = Inr [''hg'', ''-R'', ''myrepo1'', ''serve'', ''--stdio'']"
    by (simp add: getenv_example split_myrepo1)
  obtain repo_conf where
    entry: "example_acl (''repos.'' @ repo_name_of ''myrepo1'') = Some repo_conf"
    and location: "repo_conf ''location'' = Found ''relative/path''"
    and grant: "repo_conf ''bob'' = Found ''read''"
    by (simp add: example_acl_def example_repos_def)
  obtain readonly where
    ro_section: "example_acl ''readonly'' = Some readonly"
    and sudo: "readonly ''sudo'' = Found ''hgread''"
    by (simp add: example_acl_def)
  have path: "abspath (example_env (Some ''hg -R myrepo1 serve --stdio''))
      (expanduser (example_env (Some ''hg -R myrepo1 serve --stdio'')) ''relative/path'') =
      ''/srv/hg/relative/path''"
    by code_simp
  from C7_read_grant_runs_hg_behind_sudo
         [where config = example_acl and run = "\<lambda>cmd. CompletedProcess 0",
          OF split entry location grant ro_section sudo] path
  show ?thesis by simp
qed

text \<open>
  C8.  When the user has a \<^verbatim>\<open>write\<close> grant, the one argument vector that is run is
  \<^verbatim>\<open>hg -R <repo_path> serve --stdio\<close>, with no \<^verbatim>\<open>sudo\<close> before it.  \<open>repo_path\<close> is
  \<^verbatim>\<open>os.path.abspath(os.path.expanduser(location))\<close>: it is absolute (the working
  directory being so); a location that is absolute is only normalised; a relative
  location is joined to the working directory of the process and normalised; and in a
  location \<^verbatim>\<open>~\<close> or \<^verbatim>\<open>~/...\<close> the \<^verbatim>\<open>~\<close> is replaced by \<^verbatim>\<open>$HOME\<close> (less its
  trailing separators).
\<close>

theorem C8_write_grant_runs_hg_directly:
  assumes split: "shlex_split (getenv env ''SSH_ORIGINAL_COMMAND'' ''?'') =
             Inr [''hg'', ''-R'', token, ''serve'', ''--stdio'']"
    and entry: "config (''repos.'' @ repo_name_of token) = Some repo_conf"
    and location: "repo_conf ''location'' = Found location"
    and grant: "repo_conf user = Found ''write''"
  shows "run_calls (main env user config run) =
           [[''hg'', ''-R'', abspath env (expanduser env location), ''serve'', ''--stdio'']]
       \<and> subprocess_calls (script env user config run) =
           [[''hg'', ''-R'', abspath env (expanduser env location), ''serve'', ''--stdio'']]
       \<and> (isabs (getcwd env) \<longrightarrow> isabs (abspath env (expanduser env location)))
       \<and> (isabs location \<longrightarrow> abspath env (expanduser env location) = normpath location)
       \<and> (\<not> isabs location \<and> \<not> startswith location ''~'' \<longrightarrow>
             abspath env (expanduser env location) = normpath (path_join (getcwd env) location))
       \<and> (\<forall>home rest. location = ''~'' @ rest \<and> (rest = [] \<or> startswith rest [os_sep])
             \<and> environ env ''HOME'' = Some home \<and> str_rstrip home os_sep @ rest \<noteq> [] \<longrightarrow>
             expanduser env location = str_rstrip home os_sep @ rest)"
proof -
  from entry location grant
  have r: "resolve env user config token = Inr (abspath env (expanduser env location), ''write'')"
    by (simp add: resolve_granted)
  have b: "build_cmd config (abspath env (expanduser env location)) ''write'' =
      Inr [''hg'', ''-R'', abspath env (expanduser env location), ''serve'', ''--stdio'']"
    by (rule build_cmd_write)
  note runs = main_spawns [OF split r b, of run]
  have absolute: "isabs (getcwd env) \<longrightarrow> isabs (abspath env (expanduser env location))"
    by (simp add: isabs_abspath)
  have given: "isabs location \<longrightarrow> abspath env (expanduser env location) = normpath location"
    by (simp add: abspath_def expanduser_plain isabs_no_tilde)
  have relative: "\<not> isabs location \<and> \<not> startswith location ''~'' \<longrightarrow>
      abspath env (expanduser env location) = normpath (path_join (getcwd env) location)"
    by (simp add: abspath_def expanduser_plain)
  have home: "\<forall>home rest. location = ''~'' @ rest \<and> (rest = [] \<or> startswith rest [os_sep])
             \<and> environ env ''HOME'' = Some home \<and> str_rstrip home os_sep @ rest \<noteq> [] \<longrightarrow>
             expanduser env location = str_rstrip home os_sep @ rest"
    by (intro allI impI) (simp add: expanduser_home del: append.simps)
  from runs absolute given relative home show ?thesis
    by (intro conjI)
qed

theorem C8_write_grant_runs_hg_directly_witness:
  "subprocess_calls (script (example_env (Some ''hg -R myrepo1 serve --stdio'')) ''alice'' example_acl
        (\<lambda>cmd. CompletedProcess 0)) =
     [[''hg'', ''-R'', ''/srv/hg/relative/path'', ''serve'', ''--stdio'']]
   \<and> subprocess_calls (script (example_env (Some ''hg -R docs serve --stdio'')) ''alice'' example_acl
        (\<lambda>cmd. CompletedProcess 0)) =
     [[''hg'', ''-R'', ''/home/hg/repos/docs'', ''serve'', ''--stdio'']]"
proof -
  have split1: "shlex_split (getenv (example_env (Some ''hg -R myrepo1 serve --stdio''))
        ''SSH_ORIGINAL_COMMAND'' ''?'') = Inr [''hg'', ''-R'', ''myrepo1'', ''serve'', ''--stdio'']"
    by (simp add: getenv_example split_myrepo1)
  have split2: "shlex_split (getenv (example_env (Some ''hg -R docs serve --stdio''))
        ''SSH_ORIGINAL_COMMAND'' ''?'') = Inr [''hg'', ''-R'', ''docs'', ''serve'', ''--stdio'']"
    by (simp add: getenv_example split_docs)
  obtain repo_conf1 where
    entry1: "example_acl (''repos.'' @ repo_name_of ''myrepo1'') = Some repo_conf1"
    and location1: "repo_conf1 ''location'' = Found ''relative/path''"
    and grant1: "repo_conf1 ''alice'' = Found ''write''"
    by (simp add: example_acl_def example_repos_def)
  obtain repo_conf2 where
    entry2: "example_acl (''repos.'' @ repo_name_of ''docs'') = Some repo_conf2"
    and location2: "repo_conf2 ''location'' = Found ''~/repos/docs''"
    and grant2: "repo_conf2 ''alice'' = Found ''write''"
    by (simp add: example_acl_def example_repos_def repo_name_of_def os_sep_def)
  have path1: "abspath (example_env (Some ''hg -R myrepo1 serve --stdio''))
      (expanduser (example_env (Some ''hg -R myrepo1 serve --stdio'')) ''relative/path'') =
      ''/srv/hg/relative/path''"
    by code_simp
  have path2: "abspath (example_env (Some ''hg -R docs serve --stdio''))
      (expanduser (example_env (Some ''hg -R docs serve --stdio'')) ''~/repos/docs'') =
      ''/home/hg/repos/docs''"
    by code_simp
  from C8_write_grant_runs_hg_directly
         [where config = example_acl and run = "\<lambda>cmd. CompletedProcess 0",
          OF split1 entry1 location1 grant1]
       C8_write_grant_runs_hg_directly
         [where config = example_acl and run = "\<lambda>cmd. CompletedProcess 0",
          OF split2 entry2 location2 grant2]
       path1 path2
  show ?thesis by simp
qed

text \<open>
  C9.  When \<^verbatim>\<open>SSH_ORIGINAL_COMMAND\<close> is not set, the command is taken to be \<^verbatim>\<open>?\<close>.
  It splits into the single word \<^verbatim>\<open>?\<close>, which is not the allowed command, so the
  run is refused as an illegal command: nothing is spawned, the message is printed and
  the exit status is 1.
\<close>

theorem C9_absent_command_is_refused:
  assumes "environ env ''SSH_ORIGINAL_COMMAND'' = None"
  shows "getenv env ''SSH_ORIGINAL_COMMAND'' ''?'' = ''?''
       \<and> shlex_split ''?'' = Inr [''?'']
       \<and> \<not> legal_command [''?'']
       \<and> validate env = Inl (ValueError (''Illegal command '' @ repr_list [''?'']))
       \<and> main env user config run =
           \<lparr>run_calls = [], raised = Some (ValueError (''Illegal command '' @ repr_list [''?'']))\<rparr>
       \<and> script env user config run =
           \<lparr>subprocess_calls = [], stderr_lines = [''Illegal command '' @ repr_list [''?'']],
            exit_status = 1\<rparr>"
proof -
  from assms have g: "getenv env ''SSH_ORIGINAL_COMMAND'' ''?'' = ''?''"
    by (simp add: getenv_def)
  have n: "\<not> legal_command [''?'']"
    by (simp add: legal_command_def)
  from g n have v: "validate env = Inl (ValueError (''Illegal command '' @ repr_list [''?'']))"
    by (simp add: validate_cases split_question_mark)
  then have m: "main env user config run =
      raise (ValueError (''Illegal command '' @ repr_list [''?'']))"
    by (rule main_validate_Inl)
  from g n v m script_raise [OF m] show ?thesis
    by (simp add: raise_def split_question_mark)
qed

theorem C9_absent_command_is_refused_witness:
  "environ (example_env None) ''SSH_ORIGINAL_COMMAND'' = None
   \<and> script (example_env None) ''alice'' example_acl (\<lambda>cmd. CompletedProcess 0) =
       \<lparr>subprocess_calls = [],
        stderr_lines = [''Illegal command '' @ [CHR ''['', CHR 0x27, CHR ''?'', CHR 0x27, CHR '']'']],
        exit_status = 1\<rparr>"
proof -
  have absent: "environ (example_env None) ''SSH_ORIGINAL_COMMAND'' = None"
    by (simp add: example_env_def)
  from C9_absent_command_is_refused [OF absent, of "''alice''" example_acl "\<lambda>cmd. CompletedProcess 0"]
    absent show ?thesis
    by (simp add: repr_question_mark)
qed

text \<open>
  C10.  When the original command cannot be split into words (a quote that is never
  closed, a backslash at the very end), the exception is the \<^verbatim>\<open>ValueError\<close> of the
  lexer, not the \<^verbatim>\<open>Illegal command\<close> one of the check; it ends \<^verbatim>\<open>main\<close> before
  anything is spawned, and the script prints it and exits with status 1.
\<close>

theorem C10_tokenizer_failure_is_fatal:
  assumes "shlex_split (getenv env ''SSH_ORIGINAL_COMMAND'' ''?'') = Inl e"
  shows "(e = ValueError ''No closing quotation'' \<or> e = ValueError ''No escaped character'')
       \<and> (\<forall>cmdargv. e \<noteq> ValueError (''Illegal command '' @ repr_list cmdargv))
       \<and> validate env = Inl e
       \<and> main env user config run = \<lparr>run_calls = [], raised = Some e\<rparr>
       \<and> script env user config run =
           \<lparr>subprocess_calls = [], stderr_lines = [str_exn e], exit_status = 1\<rparr>"
proof -
  from assms have kind:
    "e = ValueError ''No closing quotation'' \<or> e = ValueError ''No escaped character''"
    by (rule shlex_split_error)
  then have other: "\<forall>cmdargv. e \<noteq> ValueError (''Illegal command '' @ repr_list cmdargv)"
    by auto
  from assms have v: "validate env = Inl e"
    by (simp add: validate_def)
  then have m: "main env user config run = raise e"
    by (rule main_validate_Inl)
  from kind other v m script_raise [OF m] show ?thesis
    by (simp add: raise_def)
qed

theorem C10_tokenizer_failure_is_fatal_witness:
  "shlex_split (getenv (example_env (Some unbalanced_command)) ''SSH_ORIGINAL_COMMAND'' ''?'') =
     Inl (ValueError ''No closing quotation'')
   \<and> script (example_env (Some unbalanced_command)) ''alice'' example_acl
        (\<lambda>cmd. CompletedProcess 0) =
       \<lparr>subprocess_calls = [], stderr_lines = [''No closing quotation''], exit_status = 1\<rparr>"
proof -
  have fails:
    "shlex_split (getenv (example_env (Some unbalanced_command)) ''SSH_ORIGINAL_COMMAND'' ''?'') =
       Inl (ValueError ''No closing quotation'')"
    by (simp add: getenv_example split_unbalanced)
  from C10_tokenizer_failure_is_fatal
         [OF fails, of "''alice''" example_acl "\<lambda>cmd. CompletedProcess 0"] fails
  show ?thesis by simp
qed

end
